theory Spec2Isabelle
  imports Main "HOL-Library.Sublist"
begin

section \<open>The default list item delegate (list/defaultitem.go)\<close>

text \<open>
  The file embeds \<^verbatim>\<open>DefaultDelegate\<close> of package \<^verbatim>\<open>list\<close>: its accessors
  \<^verbatim>\<open>Height\<close>, \<^verbatim>\<open>SetSpacing\<close>, \<^verbatim>\<open>Spacing\<close> and its method \<^verbatim>\<open>Render\<close>.

  A Go string is modelled by the sequence of its runes (Unicode code points), which is what
  the truncation and highlighting primitives iterate over. Go's \<^verbatim>\<open>int\<close> is modelled by
  \<open>int\<close>; the one place where the machine width shows, the conversion \<^verbatim>\<open>uint(...)\<close> of
  line 154, has its wrap-around modulo \<open>2 ^ 64\<close> written out.
\<close>

subsection \<open>Text\<close>

type_synonym rune = nat
type_synonym str = "rune list"

text \<open>The runes of an ASCII literal.\<close>

definition runes :: "string \<Rightarrow> str" where
  "runes s = map of_char s"

text \<open>
  Modelled from the spec: the constant \<^verbatim>\<open>ellipsis\<close> is declared elsewhere in the package, not
  in defaultitem.go. The spec calls it "a single-character ellipsis indicator"; it is the one
  rune U+2026.
\<close>

definition ellipsis :: str where
  "ellipsis = [8230]"

text \<open>The display width of a text in terminal cells, for a given width of each rune.\<close>

definition printable_width :: "(rune \<Rightarrow> nat) \<Rightarrow> str \<Rightarrow> nat" where
  "printable_width rw t = sum_list (map rw t)"

text \<open>The longest prefix of a text that occupies at most \<open>n\<close> cells.\<close>

fun take_cells :: "(rune \<Rightarrow> nat) \<Rightarrow> nat \<Rightarrow> str \<Rightarrow> str" where
  "take_cells rw n [] = []"
| "take_cells rw n (r # rs) = (if rw r \<le> n then r # take_cells rw (n - rw r) rs else [])"

text \<open>
  Modelled from the spec: \<^verbatim>\<open>truncate.StringWithTail\<close> belongs to the external text
  truncation library, whose source is not part of defaultitem.go. The spec describes it as
  the primitive that "consumes a string + target width, returns a truncated string with a
  trailing indicator", working "on display-width units (grapheme/cell width), not raw
  character count, so multi-cell glyphs do not overflow the budget"; a text that fits
  the width is returned as it is ("truncation is a no-op"), and the indicator is appended
  "when truncation occurs". The cells of the indicator count against the width: the
  truncated text "ends with exactly one ellipsis indicator" and its length is the width.
\<close>

definition StringWithTail :: "(rune \<Rightarrow> nat) \<Rightarrow> str \<Rightarrow> nat \<Rightarrow> str \<Rightarrow> str" where
  "StringWithTail rw s w tail =
     (if printable_width rw s \<le> w then s
      else take_cells rw (w - printable_width rw tail) s @ tail)"

text \<open>The conversion \<^verbatim>\<open>uint(i)\<close> of a Go \<^verbatim>\<open>int\<close> on a 64-bit platform.\<close>

definition go_uint :: "int \<Rightarrow> nat" where
  "go_uint i = nat (i mod 2 ^ 64)"

subsection \<open>The styling primitive\<close>

text \<open>
  \<^verbatim>\<open>lipgloss.Style\<close> is external and, in the words of the spec, "opaque to this core":
  it "consumes a style descriptor + string, returns a styled string". The operations that
  defaultitem.go calls on a style are therefore parameters of the embedding, collected in
  one record; \<open>'s\<close> is the type of style descriptors. \<^verbatim>\<open>Copy()\<close> returns the value it is
  called on and is left out. \<open>RuneWidth\<close> is the cell width of a rune, used by the
  truncation primitive.
\<close>

record 's lipgloss =
  StyleRender :: "'s \<Rightarrow> str \<Rightarrow> str"
  Inline :: "'s \<Rightarrow> bool \<Rightarrow> 's"
  Inherit :: "'s \<Rightarrow> 's \<Rightarrow> 's"
  GetPaddingLeft :: "'s \<Rightarrow> int"
  GetPaddingRight :: "'s \<Rightarrow> int"
  RuneWidth :: "rune \<Rightarrow> nat"

text \<open>
  Modelled from the spec: \<^verbatim>\<open>lipgloss.StyleRunes\<close> is external. The spec (4.2, step 5):
  "partition title into a sequence of runs alternating matched/unmatched by matchSpan
  positions", render "each unmatched run" with the one style and "each matched run" with the
  other, and "concatenate runs"; a position beyond the text matches nothing. The loop
  walks the runes with their index \<open>i\<close>, collects the current run in \<open>grp\<close> and flushes
  it when the next position changes sides or the text ends.
\<close>

fun StyleRunes_loop ::
  "'s lipgloss \<Rightarrow> int list \<Rightarrow> 's \<Rightarrow> 's \<Rightarrow> nat \<Rightarrow> str \<Rightarrow> str \<Rightarrow> str" where
  "StyleRunes_loop L indices matched unmatched i grp [] = []"
| "StyleRunes_loop L indices matched unmatched i grp (r # rs) =
     (let grp' = grp @ [r];
          matches = (int i \<in> set indices);
          nextMatches = (int (i + 1) \<in> set indices)
      in if matches \<noteq> nextMatches \<or> rs = []
         then StyleRender L (if matches then matched else unmatched) grp'
              @ StyleRunes_loop L indices matched unmatched (i + 1) [] rs
         else StyleRunes_loop L indices matched unmatched (i + 1) grp' rs)"

definition StyleRunes :: "'s lipgloss \<Rightarrow> str \<Rightarrow> int list \<Rightarrow> 's \<Rightarrow> 's \<Rightarrow> str" where
  "StyleRunes L t indices matched unmatched =
     StyleRunes_loop L indices matched unmatched 0 [] t"

subsection \<open>Items, the list model, the delegate\<close>

text \<open>
  An \<^verbatim>\<open>Item\<close> either implements \<^verbatim>\<open>DefaultItem\<close>, and then has a title and a
  description, or it does not.
\<close>

datatype Item = DefaultItem str str | OtherItem

datatype FilterState = Unfiltered | Filtering | FilterApplied

record filteredItem =
  item :: Item
  matches :: "int list"

text \<open>
  Modelled from the spec: the type \<^verbatim>\<open>Model\<close> and its methods \<^verbatim>\<open>Index\<close>,
  \<^verbatim>\<open>FilterState\<close>, \<^verbatim>\<open>FilterValue\<close> and \<^verbatim>\<open>MatchesForItem\<close> are declared
  elsewhere in the package. The spec (6) lists what the renderer consumes from the enclosing
  list: "current selection index (int), filter mode (3-valued enum), filter query text (to
  derive "empty query" boolean), per-index matched-position list (ordered set of ints, may
  be absent), viewport width (int, column count)". The fields \<open>width\<close> and
  \<open>filteredItems\<close> are the ones \<^verbatim>\<open>Render\<close> reads directly. Where the list
  of filtered items has no entry at an index, the matched positions are absent: the empty list.
\<close>

record Model =
  width :: int
  selectionIndex :: int
  filterState :: FilterState
  filterValue :: str
  filteredItems :: "filteredItem list"

definition Index :: "Model \<Rightarrow> int" where
  "Index m = selectionIndex m"

definition FilterState :: "Model \<Rightarrow> FilterState" where
  "FilterState m = filterState m"

definition FilterValue :: "Model \<Rightarrow> str" where
  "FilterValue m = filterValue m"

definition MatchesForItem :: "Model \<Rightarrow> int \<Rightarrow> int list" where
  "MatchesForItem m index =
     (if 0 \<le> index \<and> index < int (length (filteredItems m))
      then matches (filteredItems m ! nat index) else [])"

record 's DefaultItemStyles =
  NormalTitle :: 's
  NormalDesc :: 's
  SelectedTitle :: 's
  SelectedDesc :: 's
  DimmedTitle :: 's
  DimmedDesc :: 's
  FilterMatch :: 's

text \<open>
  The delegate. The sink \<^verbatim>\<open>w io.Writer\<close> is modelled by the text written to it so far,
  so \<^verbatim>\<open>RenderFunc\<close>, when set, maps the sink and its other arguments to the sink after
  the call. \<^verbatim>\<open>UpdateFunc\<close>, \<^verbatim>\<open>ShortHelpFunc\<close> and \<^verbatim>\<open>FullHelpFunc\<close> are read by
  neither \<^verbatim>\<open>Render\<close> nor the accessors and are left out.
\<close>

record 's DefaultDelegate =
  ShowDescription :: bool
  Styles :: "'s DefaultItemStyles"
  RenderFunc :: "(str \<Rightarrow> Model \<Rightarrow> int \<Rightarrow> Item \<Rightarrow> str) option"
  spacing :: int

definition Height :: "'s DefaultDelegate \<Rightarrow> int" where
  "Height d = (if ShowDescription d then 2 else 1)"

definition SetSpacing :: "'s DefaultDelegate \<Rightarrow> int \<Rightarrow> 's DefaultDelegate" where
  "SetSpacing d i = d\<lparr>spacing := i\<rparr>"

definition Spacing :: "'s DefaultDelegate \<Rightarrow> int" where
  "Spacing d = spacing d"

subsection \<open>Render\<close>

text \<open>Line 154: the text width handed to the truncation primitive.\<close>

definition textwidth :: "'s lipgloss \<Rightarrow> 's DefaultItemStyles \<Rightarrow> Model \<Rightarrow> nat" where
  "textwidth L s m =
     go_uint (width m - GetPaddingLeft L (NormalTitle s) - GetPaddingRight L (NormalTitle s))"

text \<open>Lines 152 to 157, for one of the two texts: "Prevent text from exceeding list width".\<close>

definition fitText :: "'s lipgloss \<Rightarrow> 's DefaultItemStyles \<Rightarrow> Model \<Rightarrow> str \<Rightarrow> str" where
  "fitText L s m t =
     (if width m > 0 then StringWithTail (RuneWidth L) t (textwidth L s m) ellipsis else t)"

text \<open>
  Lines 159 to 192: the conditions, the matched runes and the styling of the two texts.
  The result is the pair of the local variables \<^verbatim>\<open>title\<close> and \<^verbatim>\<open>desc\<close> at line 193.
\<close>

definition styleRow ::
  "'s lipgloss \<Rightarrow> 's DefaultItemStyles \<Rightarrow> Model \<Rightarrow> int \<Rightarrow> str \<Rightarrow> str \<Rightarrow> str \<times> str" where
  "styleRow L s m index title desc =
     (let isSelected = (index = Index m);
          emptyFilter = (FilterState m = Filtering \<and> FilterValue m = []);
          isFiltered = (FilterState m = Filtering \<or> FilterState m = FilterApplied);
          matchedRunes = (if isFiltered \<and> index < int (length (filteredItems m))
                          then MatchesForItem m index else [])
      in if emptyFilter then
           (StyleRender L (DimmedTitle s) title, StyleRender L (DimmedDesc s) desc)
         else if isSelected \<and> FilterState m \<noteq> Filtering then
           (let title' =
                  (if isFiltered then
                     (let unmatched = Inline L (SelectedTitle s) True;
                          matched = Inherit L unmatched (FilterMatch s)
                      in StyleRunes L title matchedRunes matched unmatched)
                   else title)
            in (StyleRender L (SelectedTitle s) title', StyleRender L (SelectedDesc s) desc))
         else
           (let title' =
                  (if isFiltered then
                     (let unmatched = Inline L (NormalTitle s) True;
                          matched = Inherit L unmatched (FilterMatch s)
                      in StyleRunes L title matchedRunes matched unmatched)
                   else title)
            in (StyleRender L (NormalTitle s) title', StyleRender L (NormalDesc s) desc)))"

text \<open>Lines 194 to 198: the two \<^verbatim>\<open>Fprintf\<close>, which append to the sink. Rune 10 is the line feed.\<close>

definition writeRow :: "'s DefaultDelegate \<Rightarrow> str \<Rightarrow> str \<times> str \<Rightarrow> str" where
  "writeRow d w row =
     (case row of (title, desc) \<Rightarrow>
        if ShowDescription d then w @ title @ [10] @ desc else w @ title)"

text \<open>
  \<^verbatim>\<open>Render\<close> itself: the override with its early return, the type assertion on the item
  with its early return, and the three blocks above.
\<close>

definition Render ::
  "'s lipgloss \<Rightarrow> 's DefaultDelegate \<Rightarrow> str \<Rightarrow> Model \<Rightarrow> int \<Rightarrow> Item \<Rightarrow> str" where
  "Render L d w m index itm =
     (case RenderFunc d of
        Some f \<Rightarrow> f w m index itm
      | None \<Rightarrow>
          (case itm of
             OtherItem \<Rightarrow> w
           | DefaultItem title desc \<Rightarrow>
               (let s = Styles d;
                    title = fitText L s m title;
                    desc = fitText L s m desc
                in writeRow d w (styleRow L s m index title desc))))"

subsection \<open>The default styles and a plain styling primitive\<close>

text \<open>
  A concrete style descriptor with the properties that \<^verbatim>\<open>NewDefaultItemStyles\<close> sets:
  the adaptive foreground colour (light, dark), the left border and its colour, the left and
  right padding, underlining and the inline flag.
\<close>

record Style =
  foreground :: "(string \<times> string) option"
  borderLeft :: bool
  borderForeground :: "(string \<times> string) option"
  paddingLeft :: int
  paddingRight :: int
  underline :: bool
  inline :: bool

definition NewStyle :: Style where
  "NewStyle = \<lparr>foreground = None, borderLeft = False, borderForeground = None,
     paddingLeft = 0, paddingRight = 0, underline = False, inline = False\<rparr>"

text \<open>Lines 34 to 61. \<^verbatim>\<open>Padding(0, 0, 0, 2)\<close> is top, right, bottom, left.\<close>

definition NewDefaultItemStyles :: "Style DefaultItemStyles" where
  "NewDefaultItemStyles =
     (let normalTitle = NewStyle\<lparr>foreground := Some (''#1a1a1a'', ''#dddddd''),
            paddingRight := 0, paddingLeft := 2\<rparr>;
          selectedTitle = NewStyle\<lparr>borderLeft := True,
            borderForeground := Some (''#F793FF'', ''#AD58B4''),
            foreground := Some (''#EE6FF8'', ''#EE6FF8''),
            paddingRight := 0, paddingLeft := 1\<rparr>;
          dimmedTitle = NewStyle\<lparr>foreground := Some (''#A49FA5'', ''#777777''),
            paddingRight := 0, paddingLeft := 2\<rparr>
      in \<lparr>NormalTitle = normalTitle,
          NormalDesc = normalTitle\<lparr>foreground := Some (''#A49FA5'', ''#777777'')\<rparr>,
          SelectedTitle = selectedTitle,
          SelectedDesc = selectedTitle\<lparr>foreground := Some (''#F793FF'', ''#AD58B4'')\<rparr>,
          DimmedTitle = dimmedTitle,
          DimmedDesc = dimmedTitle\<lparr>foreground := Some (''#C2B8C2'', ''#4D4D4D'')\<rparr>,
          FilterMatch = NewStyle\<lparr>underline := True\<rparr>\<rparr>)"

text \<open>Lines 98 to 104.\<close>

definition NewDefaultDelegate :: "Style DefaultDelegate" where
  "NewDefaultDelegate =
     \<lparr>ShowDescription = True, Styles = NewDefaultItemStyles, RenderFunc = None, spacing = 1\<rparr>"

text \<open>
  A plain styling primitive over these descriptors, on which the embedding can be
  evaluated: a terminal without colours. An inline style leaves the text as it is but for
  underlining, which is the pair of escape sequences \<^verbatim>\<open>ESC[4m\<close> and \<^verbatim>\<open>ESC[0m\<close>;
  a block style adds the left border (the rune U+2502) and the padding, in spaces.
  Inheriting copies what the receiver has not set, and never the padding. Ideographs
  (U+2E80 to U+A4CF) take two cells, every other rune one. Every theorem below holds
  for all styling primitives, not only for this one.
\<close>

definition plainRender :: "Style \<Rightarrow> str \<Rightarrow> str" where
  "plainRender s t =
     (let body = (if underline s then [27, 91, 52, 109] @ t @ [27, 91, 48, 109] else t)
      in if inline s then body
         else (if borderLeft s then [9474] else [])
              @ replicate (nat (paddingLeft s)) 32 @ body @ replicate (nat (paddingRight s)) 32)"

definition plainInherit :: "Style \<Rightarrow> Style \<Rightarrow> Style" where
  "plainInherit s t =
     s\<lparr>foreground := (case foreground s of None \<Rightarrow> foreground t | Some c \<Rightarrow> Some c),
       borderLeft := (borderLeft s \<or> borderLeft t),
       borderForeground :=
         (case borderForeground s of None \<Rightarrow> borderForeground t | Some c \<Rightarrow> Some c),
       underline := (underline s \<or> underline t)\<rparr>"

definition cellWidth :: "rune \<Rightarrow> nat" where
  "cellWidth r = (if 11904 \<le> r \<and> r \<le> 42191 then 2 else 1)"

definition plain :: "Style lipgloss" where
  "plain =
     \<lparr>StyleRender = plainRender,
      Inline = (\<lambda>s b. s\<lparr>inline := b\<rparr>),
      Inherit = plainInherit,
      GetPaddingLeft = paddingLeft,
      GetPaddingRight = paddingRight,
      RuneWidth = cellWidth\<rparr>"

text \<open>The item of the end-to-end scenarios, and a list model around it.\<close>

definition raspberry :: Item where
  "raspberry = DefaultItem (runes ''Raspberry Pi's'') (runes ''It's a tiny computer!'')"

definition listModel :: "int \<Rightarrow> int \<Rightarrow> FilterState \<Rightarrow> str \<Rightarrow> int list \<Rightarrow> Model" where
  "listModel wd sel fs query ms =
     \<lparr>width = wd, selectionIndex = sel, filterState = fs, filterValue = query,
      filteredItems = [\<lparr>item = raspberry, matches = ms\<rparr>]\<rparr>"

section \<open>Properties\<close>

subsection \<open>Shared lemmas\<close>

lemma Render_DefaultItem:
  "RenderFunc d = None \<Longrightarrow>
   Render L d w m index (DefaultItem title desc) =
     writeRow d w (styleRow L (Styles d) m index
       (fitText L (Styles d) m title) (fitText L (Styles d) m desc))"
  by (simp add: Render_def Let_def)


lemma fitText_filteredItems:
  "fitText L s (m\<lparr>filteredItems := fs\<rparr>) t = fitText L s m t"
  by (simp add: fitText_def textwidth_def)

lemma fitText_selectionIndex:
  "fitText L s (m\<lparr>selectionIndex := j\<rparr>) t = fitText L s m t"
  by (simp add: fitText_def textwidth_def)






lemma StringWithTail_fits:
  "printable_width rw s \<le> w \<Longrightarrow> StringWithTail rw s w tail = s"
  by (simp add: StringWithTail_def)

text \<open>
  The highlighting primitive: the runs it renders are the text, cut into pieces; and a text
  without a matched position is one unmatched run.
\<close>

lemma StyleRunes_loop_plain:
  assumes "\<And>st x. StyleRender L st x = x"
  shows "StyleRunes_loop L indices matched unmatched i grp t = (if t = [] then [] else grp @ t)"
  using assms by (induction t arbitrary: i grp) (auto simp: Let_def)

lemma StyleRunes_plain:
  assumes "\<And>st x. StyleRender L st x = x"
  shows "StyleRunes L t indices matched unmatched = t"
  using StyleRunes_loop_plain [OF assms] by (simp add: StyleRunes_def)

lemma StyleRunes_loop_unmatched:
  assumes "\<And>j. i \<le> j \<Longrightarrow> j < i + length t \<Longrightarrow> int j \<notin> set indices"
  shows "StyleRunes_loop L indices matched unmatched i grp t
           = (if t = [] then [] else StyleRender L unmatched (grp @ t))"
  using assms
proof (induction t arbitrary: i grp)
  case Nil
  then show ?case by simp
next
  case (Cons r rs)
  have here: "int i \<notin> set indices" using Cons.prems [of i] by simp
  show ?case
  proof (cases rs)
    case Nil
    then show ?thesis using here by (simp add: Let_def)
  next
    case (Cons r' rs')
    have nxt: "int (Suc i) \<notin> set indices" using Cons.prems [of "Suc i"] Cons by simp
    have ne: "rs \<noteq> []" using Cons by simp
    have rest: "StyleRunes_loop L indices matched unmatched (Suc i) (grp @ [r]) rs
                  = StyleRender L unmatched ((grp @ [r]) @ rs)"
      using Cons.IH [of "Suc i" "grp @ [r]"] Cons.prems ne by simp
    show ?thesis using here nxt rest ne by (simp add: Let_def)
  qed
qed

lemma StyleRunes_unmatched:
  assumes "\<And>j. j < length t \<Longrightarrow> int j \<notin> set indices"
  shows "StyleRunes L t indices matched unmatched
           = (if t = [] then [] else StyleRender L unmatched t)"
  using StyleRunes_loop_unmatched [of 0 t indices L matched unmatched "[]"] assms
  by (simp add: StyleRunes_def)


lemma textwidth_wraps:
  assumes "width m - GetPaddingLeft L (NormalTitle s) - GetPaddingRight L (NormalTitle s) < 0"
    and "- (2 ^ 64) \<le> width m - GetPaddingLeft L (NormalTitle s) - GetPaddingRight L (NormalTitle s)"
  shows "int (textwidth L s m) =
     2 ^ 64 + (width m - GetPaddingLeft L (NormalTitle s) - GetPaddingRight L (NormalTitle s))"
proof -
  let ?x = "width m - GetPaddingLeft L (NormalTitle s) - GetPaddingRight L (NormalTitle s)"
  have "?x mod 2 ^ 64 = (?x + 2 ^ 64) mod 2 ^ 64" by simp
  also have "\<dots> = ?x + 2 ^ 64" using assms by (intro mod_pos_pos_trivial) auto
  finally show ?thesis by (simp add: textwidth_def go_uint_def)
qed

text \<open>The definitions that an evaluation on the example item unfolds.\<close>

lemma replicate_two: "replicate 2 x = [x, x]"
  by (simp add: numeral_2_eq_2)

lemmas example_defs =
  replicate_two
  raspberry_def listModel_def NewDefaultDelegate_def NewDefaultItemStyles_def NewStyle_def
  plain_def plainRender_def plainInherit_def cellWidth_def runes_def ellipsis_def
  Index_def FilterState_def FilterValue_def MatchesForItem_def
  printable_width_def StringWithTail_def go_uint_def textwidth_def fitText_def
  StyleRunes_def styleRow_def writeRow_def Let_def

subsection \<open>Height and spacing\<close>

text \<open>
  C9. For every configuration, \<^verbatim>\<open>Height\<close> returns 2 if \<^verbatim>\<open>ShowDescription\<close> is true
  and 1 otherwise, and \<^verbatim>\<open>Spacing\<close> returns the configured gap between rows: the field
  \<open>spacing\<close>, which is what \<^verbatim>\<open>SetSpacing\<close> stored last. Setting the spacing leaves
  the height as it was.
\<close>

theorem Height_Spacing:
  "Height d = (if ShowDescription d then 2 else 1)
   \<and> Spacing d = spacing d
   \<and> Spacing (SetSpacing d i) = i
   \<and> Height (SetSpacing d i) = Height d"
  by (simp add: Height_def Spacing_def SetSpacing_def)

theorem Height_Spacing_witness:
  "Height NewDefaultDelegate = 2
   \<and> Spacing NewDefaultDelegate = 1
   \<and> Spacing (SetSpacing NewDefaultDelegate 3) = 3
   \<and> Height (SetSpacing NewDefaultDelegate 3) = 2
   \<and> Height (NewDefaultDelegate\<lparr>ShowDescription := False\<rparr>) = 1"
  using Height_Spacing [of NewDefaultDelegate 3]
    Height_Spacing [of "NewDefaultDelegate\<lparr>ShowDescription := False\<rparr>" 3]
  by (simp add: NewDefaultDelegate_def)

subsection \<open>The override and unsupported items\<close>

text \<open>
  C10. If \<^verbatim>\<open>RenderFunc\<close> is set, \<^verbatim>\<open>Render\<close> calls it and does nothing else: the sink
  after the call is the sink as the override leaves it, whatever the styling primitive, the
  styles and the layout are.
\<close>

theorem Render_override:
  "RenderFunc d = Some f \<Longrightarrow>
   Render L d w m index itm = f w m index itm
   \<and> Render L' (d\<lparr>Styles := s', ShowDescription := b'\<rparr>) w m index itm = Render L d w m index itm"
  by (simp add: Render_def)

theorem Render_override_witness:
  "RenderFunc (NewDefaultDelegate\<lparr>RenderFunc := Some (\<lambda>w m index itm. w @ runes ''row'')\<rparr>)
     = Some (\<lambda>w m index itm. w @ runes ''row'')
   \<and> Render plain (NewDefaultDelegate\<lparr>RenderFunc := Some (\<lambda>w m index itm. w @ runes ''row'')\<rparr>)
        (runes ''> '') (listModel 0 0 Unfiltered [] []) 0 raspberry
      = runes ''> row''"
  using Render_override [of "NewDefaultDelegate\<lparr>RenderFunc := Some (\<lambda>w m index itm. w @ runes ''row'')\<rparr>"
      "\<lambda>w m index itm. w @ runes ''row''" plain "runes ''> ''"
      "listModel 0 0 Unfiltered [] []" 0 raspberry]
  by (simp add: runes_def)

text \<open>
  C5. Without an override, an item that does not implement \<^verbatim>\<open>DefaultItem\<close> makes
  \<^verbatim>\<open>Render\<close> return at once: nothing is written to the sink, and there is no failure, so
  the caller can render the next row into the same sink.
\<close>

theorem Render_unsupported_item:
  "RenderFunc d = None \<Longrightarrow> Render L d w m index OtherItem = w"
  by (simp add: Render_def)

theorem Render_unsupported_item_witness:
  "RenderFunc NewDefaultDelegate = None
   \<and> Render plain NewDefaultDelegate (runes ''above'') (listModel 0 0 Unfiltered [] []) 1 OtherItem
      = runes ''above''"
  using Render_unsupported_item [of NewDefaultDelegate plain "runes ''above''"
      "listModel 0 0 Unfiltered [] []" 1]
  by (simp add: NewDefaultDelegate_def)

subsection \<open>The display state\<close>

text \<open>
  C4. Precedence of the display states, without an override. In \<^verbatim>\<open>Filtering\<close> state with
  an empty filter value, the title and the description are rendered with the dimmed styles,
  for every row and every selection index. With a filter value that is not empty, a row whose
  index is the selection index, and a filter state other than \<^verbatim>\<open>Filtering\<close>, they are
  rendered with the selected styles; when the filter is applied, the title has its matched
  runes styled first, inline, on the selected title style.
\<close>

theorem Render_precedence:
  assumes "RenderFunc d = None"
  shows "(FilterState m = Filtering \<and> FilterValue m = [] \<longrightarrow>
           Render L d w m index (DefaultItem title desc) =
             w @ StyleRender L (DimmedTitle (Styles d)) (fitText L (Styles d) m title)
               @ (if ShowDescription d
                  then [10] @ StyleRender L (DimmedDesc (Styles d)) (fitText L (Styles d) m desc)
                  else []))
       \<and> (FilterValue m \<noteq> [] \<and> index = Index m \<and> FilterState m \<noteq> Filtering \<longrightarrow>
           Render L d w m index (DefaultItem title desc) =
             w @ StyleRender L (SelectedTitle (Styles d))
                   (if FilterState m = FilterApplied
                    then StyleRunes L (fitText L (Styles d) m title)
                           (if index < int (length (filteredItems m))
                            then MatchesForItem m index else [])
                           (Inherit L (Inline L (SelectedTitle (Styles d)) True)
                              (FilterMatch (Styles d)))
                           (Inline L (SelectedTitle (Styles d)) True)
                    else fitText L (Styles d) m title)
               @ (if ShowDescription d
                  then [10] @ StyleRender L (SelectedDesc (Styles d)) (fitText L (Styles d) m desc)
                  else []))"
  using assms by (simp add: Render_DefaultItem styleRow_def writeRow_def Let_def)

theorem Render_precedence_witness:
  "RenderFunc NewDefaultDelegate = None
   \<and> FilterState (listModel 0 0 Filtering [] []) = Filtering
   \<and> FilterValue (listModel 0 0 Filtering [] []) = []
   \<and> Render plain NewDefaultDelegate [] (listModel 0 0 Filtering [] []) 0 raspberry
      = runes ''  Raspberry Pi's'' @ [10] @ runes ''  It's a tiny computer!''
   \<and> FilterValue (listModel 0 0 FilterApplied (runes ''ra'') [0, 1]) \<noteq> []
   \<and> 0 = Index (listModel 0 0 FilterApplied (runes ''ra'') [0, 1])
   \<and> FilterState (listModel 0 0 FilterApplied (runes ''ra'') [0, 1]) \<noteq> Filtering
   \<and> Render plain NewDefaultDelegate [] (listModel 0 0 FilterApplied (runes ''ra'') [0, 1]) 0
        raspberry
      = [9474] @ runes '' '' @ [27, 91, 52, 109] @ runes ''Ra'' @ [27, 91, 48, 109]
        @ runes ''spberry Pi's'' @ [10] @ [9474] @ runes '' It's a tiny computer!''"
proof -
  have none: "RenderFunc NewDefaultDelegate = None" by (simp add: NewDefaultDelegate_def)
  show ?thesis
    using none
      Render_precedence [OF none, where m = "listModel 0 0 Filtering [] []" and L = plain
        and w = "[]" and index = 0
        and title = "runes ''Raspberry Pi's''" and desc = "runes ''It's a tiny computer!''"]
      Render_precedence [OF none, where m = "listModel 0 0 FilterApplied (runes ''ra'') [0, 1]"
        and L = plain and w = "[]" and index = 0
        and title = "runes ''Raspberry Pi's''" and desc = "runes ''It's a tiny computer!''"]
    by (simp add: Render_def example_defs)
qed

text \<open>
  C1. Without an override, in \<^verbatim>\<open>Filtering\<close> state with a filter value that is not empty,
  the row at the selection index is not rendered with the selected styles: its title and
  description get the normal styles, and the matched runes of the title are still styled,
  inline, with the filter-match style laid on the normal title style. The selection index
  has no effect on the row at all.
\<close>

theorem Render_filtering_selected:
  assumes "RenderFunc d = None"
    and "FilterState m = Filtering"
    and "FilterValue m \<noteq> []"
    and "index = Index m"
  shows "Render L d w m index (DefaultItem title desc) =
           w @ StyleRender L (NormalTitle (Styles d))
                 (StyleRunes L (fitText L (Styles d) m title)
                    (if index < int (length (filteredItems m))
                     then MatchesForItem m index else [])
                    (Inherit L (Inline L (NormalTitle (Styles d)) True) (FilterMatch (Styles d)))
                    (Inline L (NormalTitle (Styles d)) True))
             @ (if ShowDescription d
                then [10] @ StyleRender L (NormalDesc (Styles d)) (fitText L (Styles d) m desc)
                else [])
       \<and> Render L d w (m\<lparr>selectionIndex := j\<rparr>) index (DefaultItem title desc) =
           Render L d w m index (DefaultItem title desc)"
  using assms
  by (simp add: Render_DefaultItem fitText_selectionIndex styleRow_def writeRow_def Let_def
      Index_def FilterState_def FilterValue_def MatchesForItem_def)

theorem Render_filtering_selected_witness:
  "RenderFunc NewDefaultDelegate = None
   \<and> FilterState (listModel 0 0 Filtering (runes ''ra'') [0, 1]) = Filtering
   \<and> FilterValue (listModel 0 0 Filtering (runes ''ra'') [0, 1]) \<noteq> []
   \<and> 0 = Index (listModel 0 0 Filtering (runes ''ra'') [0, 1])
   \<and> Render plain NewDefaultDelegate [] (listModel 0 0 Filtering (runes ''ra'') [0, 1]) 0 raspberry
      = runes ''  '' @ [27, 91, 52, 109] @ runes ''Ra'' @ [27, 91, 48, 109]
        @ runes ''spberry Pi's'' @ [10] @ runes ''  It's a tiny computer!''
   \<and> Render plain NewDefaultDelegate []
        ((listModel 0 0 Filtering (runes ''ra'') [0, 1])\<lparr>selectionIndex := 5\<rparr>) 0 raspberry
      = Render plain NewDefaultDelegate [] (listModel 0 0 Filtering (runes ''ra'') [0, 1]) 0
          raspberry"
proof -
  let ?m = "listModel 0 0 Filtering (runes ''ra'') [0, 1]"
  have h1: "RenderFunc NewDefaultDelegate = None" by (simp add: NewDefaultDelegate_def)
  have h2: "FilterState ?m = Filtering" by (simp add: FilterState_def listModel_def)
  have h3: "FilterValue ?m \<noteq> []" by (simp add: FilterValue_def listModel_def runes_def)
  have h4: "0 = Index ?m" by (simp add: Index_def listModel_def)
  show ?thesis
    using h1 h2 h3 h4
      Render_filtering_selected [OF h1 h2 h3 h4, where L = plain and w = "[]"
        and title = "runes ''Raspberry Pi's''" and desc = "runes ''It's a tiny computer!''"
        and j = 5]
    by (simp add: Render_def example_defs)
qed

subsection \<open>The description line\<close>

text \<open>
  C7. The matched positions reach the title only. Without an override and with the
  description shown, replace the filtered items of the list, and with them the matched
  positions of every row, by any others: what \<^verbatim>\<open>Render\<close> writes after the line feed is
  the same description line. That line is the truncated description under the dimmed, the
  selected or the normal description style, so the filter-match style is never laid on it.
\<close>

theorem Render_description_frame:
  assumes "RenderFunc d = None" and "ShowDescription d"
  shows "Render L d w (m\<lparr>filteredItems := fs\<rparr>) index (DefaultItem title desc) =
           w @ fst (styleRow L (Styles d) (m\<lparr>filteredItems := fs\<rparr>) index
                     (fitText L (Styles d) m title) (fitText L (Styles d) m desc))
             @ [10]
             @ snd (styleRow L (Styles d) m index
                     (fitText L (Styles d) m title) (fitText L (Styles d) m desc))
       \<and> snd (styleRow L (Styles d) m index
                (fitText L (Styles d) m title) (fitText L (Styles d) m desc))
           \<in> {StyleRender L (DimmedDesc (Styles d)) (fitText L (Styles d) m desc),
               StyleRender L (SelectedDesc (Styles d)) (fitText L (Styles d) m desc),
               StyleRender L (NormalDesc (Styles d)) (fitText L (Styles d) m desc)}"
  using assms
  by (simp add: Render_DefaultItem fitText_filteredItems writeRow_def split_beta
      styleRow_def Let_def Index_def FilterState_def FilterValue_def)

theorem Render_description_frame_witness:
  "RenderFunc NewDefaultDelegate = None
   \<and> ShowDescription NewDefaultDelegate
   \<and> Render plain NewDefaultDelegate []
        ((listModel 0 0 FilterApplied (runes ''ra'') [0, 1])
           \<lparr>filteredItems := [\<lparr>item = raspberry, matches = [10, 11]\<rparr>]\<rparr>) 0 raspberry
      = [9474] @ runes '' Raspberry '' @ [27, 91, 52, 109] @ runes ''Pi'' @ [27, 91, 48, 109]
        @ runes '''s'' @ [10] @ [9474] @ runes '' It's a tiny computer!''
   \<and> snd (styleRow plain (Styles NewDefaultDelegate)
            (listModel 0 0 FilterApplied (runes ''ra'') [0, 1]) 0
            (runes ''Raspberry Pi's'') (runes ''It's a tiny computer!''))
      = [9474] @ runes '' It's a tiny computer!''"
proof -
  have none: "RenderFunc NewDefaultDelegate = None" by (simp add: NewDefaultDelegate_def)
  have shown: "ShowDescription NewDefaultDelegate" by (simp add: NewDefaultDelegate_def)
  show ?thesis
    using none shown
      Render_description_frame [OF none shown, where L = plain and w = "[]"
        and m = "listModel 0 0 FilterApplied (runes ''ra'') [0, 1]"
        and fs = "[\<lparr>item = raspberry, matches = [10, 11]\<rparr>]" and index = 0
        and title = "runes ''Raspberry Pi's''" and desc = "runes ''It's a tiny computer!''"]
    by (simp add: Render_def example_defs)
qed

subsection \<open>Truncation\<close>






text \<open>
  Nor is the display width always equal to the usable width: a rune of two cells at the cut
  leaves one cell unused. Three ideographs, six cells, at width 6 with padding 2 keep one
  ideograph and the ellipsis, three cells of the four.
\<close>

lemma fitText_wide_rune:
  "fitText plain NewDefaultItemStyles (listModel 6 0 Unfiltered [] []) [20320, 22909, 21527]
     = [20320] @ ellipsis
   \<and> printable_width (RuneWidth plain)
        (fitText plain NewDefaultItemStyles (listModel 6 0 Unfiltered [] [])
           [20320, 22909, 21527]) = 3"
  by (simp add: example_defs)

text \<open>
  C3. A positive width below the padding. Let the width be positive and less than the sum of
  the left and the right padding of the normal title style. Then the difference of line 154
  is negative and its conversion to \<^verbatim>\<open>uint\<close> wraps around to \<open>2 ^ 64\<close> plus the
  difference, which is more than \<open>2 ^ 63\<close> when the sum of the paddings is a Go
  \<^verbatim>\<open>int\<close>. A Go string has fewer than \<open>2 ^ 63\<close> bytes, hence cells; so title and
  description pass through as they are, and the row is styled from the texts of the item.
\<close>

theorem Render_narrow_width:
  assumes none: "RenderFunc d = None"
    and pos: "0 < width m"
    and narrow: "width m < GetPaddingLeft L (NormalTitle (Styles d))
                            + GetPaddingRight L (NormalTitle (Styles d))"
    and pad: "GetPaddingLeft L (NormalTitle (Styles d))
                + GetPaddingRight L (NormalTitle (Styles d)) < 2 ^ 63"
    and title: "printable_width (RuneWidth L) title < 2 ^ 63"
    and desc: "printable_width (RuneWidth L) desc < 2 ^ 63"
  shows "width m - GetPaddingLeft L (NormalTitle (Styles d))
           - GetPaddingRight L (NormalTitle (Styles d)) < 0
       \<and> int (textwidth L (Styles d) m)
           = 2 ^ 64 + (width m - GetPaddingLeft L (NormalTitle (Styles d))
                         - GetPaddingRight L (NormalTitle (Styles d)))
       \<and> 2 ^ 63 < textwidth L (Styles d) m
       \<and> fitText L (Styles d) m title = title
       \<and> fitText L (Styles d) m desc = desc
       \<and> Render L d w m index (DefaultItem title desc)
           = writeRow d w (styleRow L (Styles d) m index title desc)"
proof -
  let ?x = "width m - GetPaddingLeft L (NormalTitle (Styles d))
              - GetPaddingRight L (NormalTitle (Styles d))"
  have neg: "?x < 0" using narrow by simp
  have low: "- (2 ^ 64) \<le> ?x" using pos pad by simp
  have wrap: "int (textwidth L (Styles d) m) = 2 ^ 64 + ?x"
    using neg low by (rule textwidth_wraps)
  have "(2::int) ^ 63 < 2 ^ 64 + ?x" using pos pad by simp
  then have "int (2 ^ 63) < int (textwidth L (Styles d) m)" using wrap by simp
  then have huge: "2 ^ 63 < textwidth L (Styles d) m" by (simp only: of_nat_less_iff)
  have t: "fitText L (Styles d) m title = title"
    using title huge by (simp add: fitText_def StringWithTail_fits)
  have ds: "fitText L (Styles d) m desc = desc"
    using desc huge by (simp add: fitText_def StringWithTail_fits)
  show ?thesis
    using neg wrap huge t ds Render_DefaultItem [OF none, of L w m index title desc]
    by simp
qed

theorem Render_narrow_width_witness:
  "RenderFunc NewDefaultDelegate = None
   \<and> 0 < width (listModel 1 0 Unfiltered [] [])
   \<and> width (listModel 1 0 Unfiltered [] [])
       < GetPaddingLeft plain (NormalTitle (Styles NewDefaultDelegate))
         + GetPaddingRight plain (NormalTitle (Styles NewDefaultDelegate))
   \<and> textwidth plain (Styles NewDefaultDelegate) (listModel 1 0 Unfiltered [] [])
      = 18446744073709551615
   \<and> Render plain NewDefaultDelegate [] (listModel 1 0 Unfiltered [] []) 1 raspberry
      = runes ''  Raspberry Pi's'' @ [10] @ runes ''  It's a tiny computer!''"
proof -
  let ?m = "listModel 1 0 Unfiltered [] []"
  have none: "RenderFunc NewDefaultDelegate = None" by (simp add: NewDefaultDelegate_def)
  have pos: "0 < width ?m" by (simp add: listModel_def)
  have narrow: "width ?m < GetPaddingLeft plain (NormalTitle (Styles NewDefaultDelegate))
                   + GetPaddingRight plain (NormalTitle (Styles NewDefaultDelegate))"
    by (simp add: example_defs)
  have pad: "GetPaddingLeft plain (NormalTitle (Styles NewDefaultDelegate))
               + GetPaddingRight plain (NormalTitle (Styles NewDefaultDelegate)) < 2 ^ 63"
    by (simp add: example_defs)
  have title: "printable_width (RuneWidth plain) (runes ''Raspberry Pi's'') < 2 ^ 63"
    by (simp add: example_defs)
  have desc: "printable_width (RuneWidth plain) (runes ''It's a tiny computer!'') < 2 ^ 63"
    by (simp add: example_defs)
  show ?thesis
    using none pos narrow
      Render_narrow_width [OF none pos narrow pad title desc, where w = "[]" and index = 1]
    by (simp add: example_defs)
qed

subsection \<open>Determinism\<close>



end
